theory Spec2Isabelle
  imports Main "HOL-Library.Sublist"
begin

text \<open>
  A shallow embedding of \<open>calibre_rest/calibre.py\<close>, the wrapper around the \<open>calibredb\<close>
  command line tool: its flag builders, its command runner with the mutex, the
  classification of the output of an add, and the operations that address a book by id.
  The external tool, the file system and \<open>json.loads\<close> are parameters of the model.
\<close>

section \<open>Strings as the wrapper uses them\<close>

text \<open>
  A Python \<open>str\<close> is modelled as a \<open>string\<close> whose characters are code points below 256.
  The functions of this section are the library operations that \<open>calibre.py\<close> calls:
  \<open>str.strip\<close>, \<open>str.join\<close>, \<open>str.split\<close>, \<open>str(int)\<close> and \<open>shlex.quote\<close>.
\<close>

abbreviation newline :: char where
  "newline \<equiv> CHR 0x0A"

abbreviation squote :: char where
  "squote \<equiv> CHR 0x27"

abbreviation dquote :: char where
  "dquote \<equiv> CHR 0x22"

text \<open>The code points below 256 for which \<open>str.isspace\<close> holds.\<close>

definition whitespace :: string where
  "whitespace = [CHR 0x09, CHR 0x0A, CHR 0x0B, CHR 0x0C, CHR 0x0D,
                 CHR 0x1C, CHR 0x1D, CHR 0x1E, CHR 0x1F, CHR 0x20, CHR 0x85, CHR 0xA0]"

text \<open>\<open>s.strip(chars)\<close>: drop the characters of \<open>chars\<close> from both ends.\<close>

definition strip_chars :: "string \<Rightarrow> string \<Rightarrow> string" where
  "strip_chars chars s =
     rev (dropWhile (\<lambda>c. c \<in> set chars) (rev (dropWhile (\<lambda>c. c \<in> set chars) s)))"

text \<open>\<open>s.strip()\<close>.\<close>

definition strip :: "string \<Rightarrow> string" where
  "strip s = strip_chars whitespace s"

text \<open>\<open>sep.join(lst)\<close>.\<close>

fun str_join :: "string \<Rightarrow> string list \<Rightarrow> string" where
  "str_join sep [] = []"
| "str_join sep [x] = x"
| "str_join sep (x # y # ys) = x @ sep @ str_join sep (y # ys)"

text \<open>
  \<open>s.split(sep)\<close> for a non-empty separator: the pieces between the non-overlapping
  occurrences of \<open>sep\<close>, found from the left. The result always has at least one piece.
  \<open>acc\<close> holds the current piece, reversed.
\<close>

function split_from :: "string \<Rightarrow> string \<Rightarrow> string \<Rightarrow> string list" where
  "split_from sep acc [] = [rev acc]"
| "split_from sep acc (c # cs) =
     (if sep \<noteq> [] \<and> prefix sep (c # cs)
      then rev acc # split_from sep [] (drop (length sep) (c # cs))
      else split_from sep (c # acc) cs)"
  by pat_completeness auto
termination
  by (relation "measure (\<lambda>(sep, acc, s). length s)") (auto simp: neq_Nil_conv)

definition split :: "string \<Rightarrow> string \<Rightarrow> string list" where
  "split s sep = split_from sep [] s"

text \<open>\<open>str(n)\<close> for an integer: decimal digits, with a minus sign below zero.\<close>

fun str_nat :: "nat \<Rightarrow> string" where
  "str_nat n =
     (if n < 10 then [''0123456789'' ! n]
      else str_nat (n div 10) @ [''0123456789'' ! (n mod 10)])"

definition str_int :: "int \<Rightarrow> string" where
  "str_int i = (if i < 0 then ''-'' @ str_nat (nat (- i)) else str_nat (nat i))"

text \<open>\<open>s.replace(squote, squote dquote squote dquote squote)\<close>, as \<open>shlex.quote\<close> uses it.\<close>

fun replace_squote :: "string \<Rightarrow> string" where
  "replace_squote [] = []"
| "replace_squote (c # cs) =
     (if c = squote then [squote, dquote, squote, dquote, squote] @ replace_squote cs
      else c # replace_squote cs)"

text \<open>
  The characters \<open>shlex.quote\<close> leaves alone: the ASCII word characters and
  \<open>@%+=:,./-\<close>.
\<close>

definition shlex_safe :: "char \<Rightarrow> bool" where
  "shlex_safe c \<longleftrightarrow>
     c \<in> set (''abcdefghijklmnopqrstuvwxyz'' @ ''ABCDEFGHIJKLMNOPQRSTUVWXYZ''
              @ ''0123456789_'' @ ''@%+=:,./-'')"

text \<open>\<open>shlex.quote(s)\<close>.\<close>

definition shlex_quote :: "string \<Rightarrow> string" where
  "shlex_quote s =
     (if s = [] then [squote, squote]
      else if list_all shlex_safe s then s
      else [squote] @ replace_squote s @ [squote])"

subsection \<open>Module-level helpers of \<open>calibre.py\<close>\<close>

text \<open>\<open>join_list(lst, sep)\<close>: strip every element, then join.\<close>

definition join_list :: "string list \<Rightarrow> string \<Rightarrow> string" where
  "join_list lst sep = str_join sep (map strip lst)"

text \<open>\<open>quote(s)\<close>: strip, then \<open>shlex.quote\<close> when a space is left in the string.\<close>

definition quote :: "string \<Rightarrow> string" where
  "quote s = (let s = strip s in if CHR '' '' \<in> set s then shlex_quote s else s)"


section \<open>Regular expressions of the wrapper\<close>

text \<open>
  Every pattern of \<open>CalibreWrapper\<close> starts with \<open>^\<close> and is used with \<open>re.search\<close>
  without flags, so it can only match at the start of the text.
  A pattern \<open>^literal([class]+)\<close> matches when the text starts with the literal and at
  least one character of the class follows; the group is the longest run of class
  characters (the quantifier is greedy). The result is the text of group 1.
\<close>

definition search_literal_class :: "string \<Rightarrow> (char \<Rightarrow> bool) \<Rightarrow> string \<Rightarrow> string option" where
  "search_literal_class lit cls s =
     (if prefix lit s \<and> takeWhile cls (drop (length lit) s) \<noteq> []
      then Some (takeWhile cls (drop (length lit) s))
      else None)"

text \<open>\<open>BOOK_ADDED_REGEX = ^Added book ids: ([0-9,]+)\<close>\<close>

definition BOOK_ADDED_REGEX :: "string \<Rightarrow> string option" where
  "BOOK_ADDED_REGEX = search_literal_class ''Added book ids: '' (\<lambda>c. c \<in> set ''0123456789,'')"

text \<open>\<open>BOOK_MERGED_REGEX = ^Merged book ids: ([0-9, ]+)\<close>\<close>

definition BOOK_MERGED_REGEX :: "string \<Rightarrow> string option" where
  "BOOK_MERGED_REGEX = search_literal_class ''Merged book ids: '' (\<lambda>c. c \<in> set ''0123456789, '')"

text \<open>
  \<open>BOOK_IGNORED_REGEX = ^The following books were not added as they already exist.*\<close>:
  the trailing \<open>.*\<close> also matches nothing, so the pattern matches exactly the texts
  that start with the literal.
\<close>

definition BOOK_IGNORED_REGEX :: "string \<Rightarrow> bool" where
  "BOOK_IGNORED_REGEX s \<longleftrightarrow>
     prefix ''The following books were not added as they already exist'' s"

text \<open>
  \<open>CONCURRENCY_ERR_REGEX = ^Another calibre program.*is running.\<close>: a dot does not
  match a newline, so after the literal the rest of the first line must contain
  \<open>is running\<close> followed by one more character.
\<close>

fun search_literal_dot :: "string \<Rightarrow> string \<Rightarrow> bool" where
  "search_literal_dot lit [] = False"
| "search_literal_dot lit (c # cs) =
     ((prefix lit (c # cs) \<and> length lit < length (c # cs)) \<or> search_literal_dot lit cs)"

definition CONCURRENCY_ERR_REGEX :: "string \<Rightarrow> bool" where
  "CONCURRENCY_ERR_REGEX s \<longleftrightarrow>
     prefix ''Another calibre program'' s \<and>
     search_literal_dot ''is running''
       (takeWhile (\<lambda>c. c \<noteq> newline) (drop (length ''Another calibre program'') s))"

section \<open>Data model\<close>

text \<open>
  Modelled from the spec: the class \<open>Book\<close> (\<open>calibre_rest.models\<close>) is not part of the
  sources at hand. The record has the attributes that \<open>ADD_FLAGS\<close> and \<open>UPDATE_FLAGS\<close>
  read, with the types of the spec's BookRecord; an unset attribute holds the empty
  value of its type (\<open>0\<close> for a number). Numbers are integers. The mapping
  \<open>identifiers\<close> is an association list in insertion order, the order in which
  \<open>dict.items()\<close> yields its entries. The attributes \<open>id\<close> and \<open>size\<close> carry a suffix.
\<close>

record Book =
  author_sort :: string
  authors :: "string list"
  comments :: string
  cover :: string
  id_attr :: int
  identifiers :: "(string \<times> string) list"
  isbn :: string
  languages :: "string list"
  pubdate :: string
  publisher :: string
  rating :: int
  series :: string
  series_index :: int
  size_attr :: int
  tags :: "string list"
  timestamp :: string
  title :: string

text \<open>The Python values an attribute of a book can hold.\<close>

datatype pyval =
    PNone
  | PStr string
  | PInt int
  | PList "string list"
  | PDict "(string \<times> string) list"

text \<open>
  \<open>getattr(book, name)\<close>. Python raises AttributeError for any other name; the two
  flag tables name attributes of \<open>Book\<close> only.
\<close>

definition getattr :: "Book \<Rightarrow> string \<Rightarrow> pyval" where
  "getattr book name =
     (if name = ''author_sort'' then PStr (author_sort book)
      else if name = ''authors'' then PList (authors book)
      else if name = ''comments'' then PStr (comments book)
      else if name = ''cover'' then PStr (cover book)
      else if name = ''id'' then PInt (id_attr book)
      else if name = ''identifiers'' then PDict (identifiers book)
      else if name = ''isbn'' then PStr (isbn book)
      else if name = ''languages'' then PList (languages book)
      else if name = ''pubdate'' then PStr (pubdate book)
      else if name = ''publisher'' then PStr (publisher book)
      else if name = ''rating'' then PInt (rating book)
      else if name = ''series'' then PStr (series book)
      else if name = ''series_index'' then PInt (series_index book)
      else if name = ''size'' then PInt (size_attr book)
      else if name = ''tags'' then PList (tags book)
      else if name = ''timestamp'' then PStr (timestamp book)
      else if name = ''title'' then PStr (title book)
      else PNone)"

text \<open>The truth value of \<open>if value:\<close>.\<close>

fun truthy :: "pyval \<Rightarrow> bool" where
  "truthy PNone = False"
| "truthy (PStr s) = (s \<noteq> [])"
| "truthy (PInt i) = (i \<noteq> 0)"
| "truthy (PList xs) = (xs \<noteq> [])"
| "truthy (PDict kvs) = (kvs \<noteq> [])"

text \<open>\<open>value.items()\<close> of a mapping.\<close>

fun items :: "pyval \<Rightarrow> (string \<times> string) list" where
  "items (PDict kvs) = kvs"
| "items _ = []"

text \<open>
  \<open>str(value)\<close> and the text an f-string inserts for a value. The flag builders apply
  it to strings and numbers: a list has been joined into a string before, and the only
  mapping of a book is \<open>identifiers\<close>, which has a branch of its own.
\<close>

fun str_value :: "pyval \<Rightarrow> string" where
  "str_value PNone = ''None''"
| "str_value (PStr s) = s"
| "str_value (PInt i) = str_int i"
| "str_value (PList xs) = []"
| "str_value (PDict kvs) = []"

text \<open>The class constants, in their order of declaration.\<close>

definition ADD_FLAGS :: "(string \<times> string) list" where
  "ADD_FLAGS =
     [(''authors'', ''authors''),
      (''cover'', ''cover''),
      (''identifiers'', ''identifier''),
      (''isbn'', ''isbn''),
      (''languages'', ''languages''),
      (''series'', ''series''),
      (''series_index'', ''series-index''),
      (''tags'', ''tags''),
      (''title'', ''title'')]"

definition UPDATE_FLAGS :: "string list" where
  "UPDATE_FLAGS =
     [''author_sort'', ''authors'', ''comments'', ''id'', ''identifiers'', ''languages'',
      ''pubdate'', ''publisher'', ''rating'', ''series'', ''series_index'', ''size'',
      ''tags'', ''timestamp'', ''title'']"

definition AUTOMERGE_VALID_VALUES :: "string list" where
  "AUTOMERGE_VALID_VALUES = [''overwrite'', ''new_record'', ''ignore'']"

section \<open>The flag builders\<close>

text \<open>
  The loop of \<open>_handle_add_flags\<close> over \<open>ADD_FLAGS.keys()\<close>. The \<open>break\<close> of the
  \<open>identifiers\<close> branch ends the loop: the rest of the table is not visited.
\<close>

fun add_flags_loop :: "(string \<times> string) list \<Rightarrow> Book \<Rightarrow> string \<Rightarrow> string" where
  "add_flags_loop [] book cmd = cmd"
| "add_flags_loop ((flag, flag_name) # rest) book cmd =
     (let value = getattr book flag in
      if truthy value then
        if flag = ''identifiers'' then
          foldl (\<lambda>cmd (k, v). cmd @ '' --'' @ flag_name @ '' '' @ quote (k @ '':'' @ v))
            cmd (items value)
        else
          let value = (case value of
                         PList lst \<Rightarrow>
                           if flag = ''authors'' then PStr (join_list lst '' & '')
                           else PStr (join_list lst '','')
                       | _ \<Rightarrow> value)
          in add_flags_loop rest book (cmd @ '' --'' @ flag_name @ '' '' @ quote (str_value value))
      else add_flags_loop rest book cmd)"

definition handle_add_flags :: "string \<Rightarrow> Book option \<Rightarrow> string" where
  "handle_add_flags cmd book =
     (case book of None \<Rightarrow> cmd | Some b \<Rightarrow> add_flags_loop ADD_FLAGS b cmd)"

text \<open>The loop of \<open>_handle_update_flags\<close> over \<open>UPDATE_FLAGS\<close>.\<close>

fun update_flags_loop :: "string list \<Rightarrow> Book \<Rightarrow> string \<Rightarrow> string" where
  "update_flags_loop [] book cmd = cmd"
| "update_flags_loop (field # rest) book cmd =
     (let value = getattr book field in
      if truthy value then
        if field = ''identifiers'' then
          let strs = map (\<lambda>(k, v). k @ '':'' @ v) (items value)
          in cmd @ '' --field '' @ field @ '':'' @ quote (join_list strs '','')
        else
          let value = (case value of
                         PList lst \<Rightarrow>
                           if field = ''authors'' then PStr (join_list lst '' & '')
                           else PStr (join_list lst '','')
                       | _ \<Rightarrow> value);
              value = quote (field @ '':'' @ str_value value)
          in update_flags_loop rest book (cmd @ '' --field '' @ value)
      else update_flags_loop rest book cmd)"

definition handle_update_flags :: "string \<Rightarrow> Book option \<Rightarrow> string" where
  "handle_update_flags cmd book =
     (case book of None \<Rightarrow> cmd | Some b \<Rightarrow> update_flags_loop UPDATE_FLAGS b cmd)"


section \<open>Errors, effects and the environment\<close>

text \<open>
  The exceptions that leave the wrapper. The classes of \<open>calibre_rest.errors\<close> carry
  the arguments that \<open>calibre.py\<close> gives their constructors. \<open>OtherError\<close> stands for
  an exception that \<open>subprocess.run\<close> or \<open>shlex.split\<close> raises and \<open>_run\<close> does not catch.
\<close>

datatype error =
    ValueError string
  | FileNotFoundError string
  | CalibreConcurrencyError "string list" int
  | CalibreRuntimeError "string list" int string string
  | ExistingItemError string
  | Exception string
  | TypeError
  | KeyError
  | OtherError string

text \<open>
  A call returns a value, raises, or blocks for ever: \<open>threading.Lock\<close> is not
  reentrant, and nothing in a sequential run releases a lock that is held when
  \<open>acquire\<close> is called.
\<close>

datatype 'a outcome = Return 'a | Raise error | Blocked

datatype level = DEBUG | INFO | WARNING | ERROR

text \<open>
  What a call does to the world, in order: taking and releasing the mutex, evaluating
  \<open>subprocess.run(shlex.split(cmd), ...)\<close> for a command string, and writing to a logger.
\<close>

datatype event = Acquire | Release | Invoke string | Log level string

record world =
  mutex_locked :: bool
  trace :: "event list"

text \<open>The command strings handed to \<open>subprocess.run\<close> so far.\<close>

fun invocations :: "event list \<Rightarrow> string list" where
  "invocations [] = []"
| "invocations (Invoke cmd # es) = cmd # invocations es"
| "invocations (e # es) = invocations es"

text \<open>
  What \<open>subprocess.run(shlex.split(cmd), capture_output=True, check=True, ...)\<close> can do:
  complete with exit code 0 (stdout, stderr), raise \<open>CalledProcessError\<close> (exit code,
  stdout, stderr), raise \<open>FileNotFoundError\<close> (its text), or raise anything else
  (\<open>shlex.split\<close> raises ValueError on an unbalanced quote).
\<close>

datatype proc_result =
    Completed string string
  | CalledProcessError int string string
  | ExecutableNotFound string
  | OtherFailure error

text \<open>Parsed JSON, as \<open>json.loads\<close> returns it.\<close>

datatype json =
    JNull
  | JBool bool
  | JNum int
  | JStr string
  | JArr "json list"
  | JObj "(string \<times> json) list"

text \<open>
  The collaborators outside the wrapper. The external tool answers a command string
  depending on the commands run before it. \<open>json_loads\<close> yields \<open>Inl\<close> with the
  text of the exception where \<open>json.loads\<close> raises JSONDecodeError. \<open>mk_book\<close> is
  \<open>Book(**d)\<close> for the entries of a JSON object, \<open>None\<close> where the constructor raises
  TypeError.
\<close>

record env =
  subprocess_run :: "string list \<Rightarrow> string \<Rightarrow> proc_result"
  shlex_split :: "string \<Rightarrow> string list"
  path_exists :: "string \<Rightarrow> bool"
  json_loads :: "string \<Rightarrow> string + json"
  mk_book :: "(string \<times> json) list \<Rightarrow> Book option"

text \<open>The wrapper object: the paths fixed by \<open>__init__\<close>.\<close>

record wrapper =
  cdb :: string
  lib :: string
  cdb_with_lib :: string

definition emit :: "event \<Rightarrow> world \<Rightarrow> world" where
  "emit e w = w\<lparr>trace := trace w @ [e]\<rparr>"

text \<open>Sequencing: an exception or a blocked call ends the rest of the operation.\<close>

definition then_do ::
  "'a outcome \<times> world \<Rightarrow> ('a \<Rightarrow> world \<Rightarrow> 'b outcome \<times> world) \<Rightarrow> 'b outcome \<times> world" where
  "then_do m f =
     (case m of
        (Return x, w) \<Rightarrow> f x w
      | (Raise e, w) \<Rightarrow> (Raise e, w)
      | (Blocked, w) \<Rightarrow> (Blocked, w))"

section \<open>The command runner\<close>

text \<open>
  \<open>_run(cmd)\<close>. The \<open>finally\<close> clause releases the mutex after the \<open>try\<close> body and after
  each \<open>except\<close> clause, also for an exception no clause catches.
\<close>

definition run :: "env \<Rightarrow> world \<Rightarrow> string \<Rightarrow> (string \<times> string) outcome \<times> world" where
  "run env w cmd =
     (let w = emit (Log DEBUG (''Running '' @ [dquote] @ cmd @ [dquote])) w in
      if mutex_locked w then (Blocked, w)
      else
        let w = emit Acquire (w\<lparr>mutex_locked := True\<rparr>);
            process = subprocess_run env (invocations (trace w)) cmd;
            w = emit (Invoke cmd) w;
            w = emit Release (w\<lparr>mutex_locked := False\<rparr>)
        in case process of
             ExecutableNotFound err \<Rightarrow>
               (Raise (FileNotFoundError
                  (''Executable could not be found.'' @ [newline, newline] @ err)), w)
           | CalledProcessError returncode out stderr \<Rightarrow>
               (if CONCURRENCY_ERR_REGEX stderr
                then (Raise (CalibreConcurrencyError (shlex_split env cmd) returncode), w)
                else (Raise (CalibreRuntimeError (shlex_split env cmd) returncode out stderr), w))
           | OtherFailure e \<Rightarrow> (Raise e, w)
           | Completed out stderr \<Rightarrow>
               (Return (out, stderr),
                if stderr \<noteq> [] then emit (Log WARNING stderr) w else w))"

section \<open>The operations\<close>

text \<open>\<open>validate_id(id)\<close>\<close>

definition validate_id :: "int \<Rightarrow> unit outcome" where
  "validate_id ident =
     (if ident \<le> 0 then Raise (ValueError (''Value '' @ str_int ident @ '' cannot be <= 0''))
      else Return ())"

text \<open>
  \<open>get_book(id)\<close>. \<open>len(b)\<close> raises TypeError for a number, a truth value or null;
  \<open>b[0]\<close> raises KeyError for an object; \<open>Book(**x)\<close> raises TypeError unless \<open>x\<close> is an
  object that the constructor accepts. Falling off the end returns \<open>None\<close>.
\<close>

definition get_book :: "wrapper \<Rightarrow> env \<Rightarrow> world \<Rightarrow> int \<Rightarrow> Book option outcome \<times> world" where
  "get_book self env w ident =
     then_do (validate_id ident, w) (\<lambda>_ w.
       let cmd = cdb_with_lib self @ '' list '' @ ''--for-machine --fields=all ''
                 @ ''--search=id:'' @ str_int ident @ '' --limit=1''
       in then_do (run env w cmd) (\<lambda>(out, _) w.
            case json_loads env out of
              Inl exc \<Rightarrow>
                (Return None,
                 emit (Log ERROR (''Error decoding JSON: '' @ exc @ [newline, newline] @ out)) w)
            | Inr (JArr xs) \<Rightarrow>
                (if length xs = 1 then
                   (case hd xs of
                      JObj kvs \<Rightarrow>
                        (case mk_book env kvs of
                           Some book \<Rightarrow> (Return (Some book), w)
                         | None \<Rightarrow> (Raise TypeError, w))
                    | _ \<Rightarrow> (Raise TypeError, w))
                 else (Return None, w))
            | Inr (JObj kvs) \<Rightarrow>
                (if length kvs = 1 then (Raise KeyError, w) else (Return None, w))
            | Inr (JStr s) \<Rightarrow>
                (if length s = 1 then (Raise TypeError, w) else (Return None, w))
            | Inr _ \<Rightarrow> (Raise TypeError, w)))"

text \<open>
  The part of \<open>_run_add\<close> after the call of \<open>_run\<close>: the output of the tool is tried
  against the three patterns in the order of the source. \<open>cmd\<close> is the command that
  was run; it only appears in the log.
\<close>

definition classify_add_output ::
  "string \<Rightarrow> string \<Rightarrow> string \<Rightarrow> world \<Rightarrow> string list outcome \<times> world" where
  "classify_add_output cmd out stderr w =
     (let diagnostics = ''COMMAND: '' @ cmd @ [newline, newline] @ ''STDOUT:'' @ [newline]
                        @ out @ [newline] @ ''STDERR:'' @ [newline] @ stderr
      in
      if BOOK_IGNORED_REGEX stderr then
        let out = strip_chars [newline, CHR '' ''] out;
            w = emit (Log INFO (''Books '' @ out @ '' already exist. Ignoring...'')) w
        in (Raise (ExistingItemError
              (''Book '' @ out @ '' already exists. Include automerge=overwrite to overwrite.'')), w)
      else
        case BOOK_MERGED_REGEX out of
          Some book_ids_str \<Rightarrow>
            (let book_ids = split book_ids_str '', '' in
             if length book_ids < 1 then
               (Raise (Exception ''No books were merged, something went wrong...''),
                emit (Log ERROR diagnostics)
                  (emit (Log ERROR ''No books were merged, something went wrong...'') w))
             else (Return book_ids, w))
        | None \<Rightarrow>
            (case BOOK_ADDED_REGEX out of
               Some book_ids_str \<Rightarrow>
                 (let book_ids = split book_ids_str '', '' in
                  if length book_ids < 1 then
                    (Raise (Exception ''No books were added, something went wrong...''),
                     emit (Log ERROR diagnostics)
                       (emit (Log ERROR ''No books were added, something went wrong...'') w))
                  else (Return book_ids, w))
             | None \<Rightarrow>
                 (Raise (Exception
                    ''Could not parse calibredb add output, something went wrong...''),
                  emit (Log ERROR diagnostics)
                    (emit (Log ERROR
                       ''Could not parse calibredb add output, something went wrong...'') w))))"

text \<open>\<open>_run_add(cmd, book, automerge)\<close>\<close>

definition run_add ::
  "env \<Rightarrow> world \<Rightarrow> string \<Rightarrow> Book option \<Rightarrow> string \<Rightarrow> string list outcome \<times> world" where
  "run_add env w cmd book automerge =
     (let (cmd, w) =
            (if automerge \<in> set AUTOMERGE_VALID_VALUES
             then (cmd @ '' --automerge='' @ automerge, w)
             else (cmd @ '' --automerge=ignore'',
                   emit (Log WARNING
                     (''automerge value '' @ [dquote] @ automerge @ [dquote]
                      @ '' not supported. '' @ ''Using '' @ [dquote] @ ''--automerge ignore''
                      @ [dquote] @ ''.'')) w));
          cmd = handle_add_flags cmd book
      in then_do (run env w cmd) (\<lambda>(out, stderr) w. classify_add_output cmd out stderr w))"

text \<open>\<open>add_one(book_path, book, automerge)\<close>\<close>

definition add_one ::
  "wrapper \<Rightarrow> env \<Rightarrow> world \<Rightarrow> string \<Rightarrow> Book option \<Rightarrow> string
     \<Rightarrow> string list outcome \<times> world" where
  "add_one self env w book_path book automerge =
     (if \<not> path_exists env book_path
      then (Raise (FileNotFoundError (''Failed to find book at '' @ book_path)), w)
      else run_add env w (cdb_with_lib self @ '' add '' @ book_path) book automerge)"

text \<open>\<open>add_one_empty(book, automerge)\<close>\<close>

definition add_one_empty ::
  "wrapper \<Rightarrow> env \<Rightarrow> world \<Rightarrow> Book option \<Rightarrow> string \<Rightarrow> string list outcome \<times> world" where
  "add_one_empty self env w book automerge =
     run_add env w (cdb_with_lib self @ '' add --empty'') book automerge"

text \<open>\<open>add_format(id, replace, data_file)\<close>\<close>

definition add_format ::
  "wrapper \<Rightarrow> env \<Rightarrow> world \<Rightarrow> int \<Rightarrow> bool \<Rightarrow> bool \<Rightarrow> string outcome \<times> world" where
  "add_format self env w ident replace data_file =
     then_do (validate_id ident, w) (\<lambda>_ w.
       let cmd = cdb_with_lib self @ '' add_format '' @ str_int ident;
           cmd = (if replace then cmd @ '' --dont-replace'' else cmd);
           cmd = (if data_file then cmd @ '' --as-extra-data-file'' else cmd)
       in then_do (run env w cmd) (\<lambda>(out, _) w. (Return out, w)))"

text \<open>\<open>remove_format(id, format)\<close>\<close>

definition remove_format ::
  "wrapper \<Rightarrow> env \<Rightarrow> world \<Rightarrow> int \<Rightarrow> string \<Rightarrow> string outcome \<times> world" where
  "remove_format self env w ident format =
     then_do (validate_id ident, w) (\<lambda>_ w.
       let cmd = cdb_with_lib self @ '' remove_format '' @ str_int ident @ '' '' @ format
       in then_do (run env w cmd) (\<lambda>(out, _) w. (Return out, w)))"

text \<open>\<open>show_metadata(id)\<close>\<close>

definition show_metadata :: "wrapper \<Rightarrow> env \<Rightarrow> world \<Rightarrow> int \<Rightarrow> string outcome \<times> world" where
  "show_metadata self env w ident =
     then_do (validate_id ident, w) (\<lambda>_ w.
       let cmd = cdb_with_lib self @ '' show_metadata --as-opf '' @ str_int ident
       in then_do (run env w cmd) (\<lambda>(out, _) w. (Return out, w)))"

text \<open>
  \<open>set_metadata(id, book, metadata_path)\<close>. \<open>if metadata_path:\<close> holds for a path that
  is given and not empty.
\<close>

definition set_metadata ::
  "wrapper \<Rightarrow> env \<Rightarrow> world \<Rightarrow> int \<Rightarrow> Book option \<Rightarrow> string option \<Rightarrow> int outcome \<times> world" where
  "set_metadata self env w ident book metadata_path =
     then_do (validate_id ident, w) (\<lambda>_ w.
       then_do (get_book self env w ident) (\<lambda>found w.
         if found = None then (Return (- 1), w)
         else
           let cmd = cdb_with_lib self @ '' set_metadata '' @ str_int ident in
           then_do
             (if metadata_path \<noteq> None \<and> metadata_path \<noteq> Some [] then
                if \<not> path_exists env (the metadata_path)
                then (Raise (FileNotFoundError
                        (''Metadata file '' @ the metadata_path @ '' does not exist'')), w)
                else (Return (cmd @ '' '' @ the metadata_path), w)
              else if book \<noteq> None then (Return (handle_update_flags cmd book), w)
              else (Raise (ValueError ''No metadata given for update''), w))
             (\<lambda>cmd w. then_do (run env w cmd) (\<lambda>_ w. (Return ident, w)))))"


section \<open>Concrete inputs\<close>

text \<open>A wrapper, a world with a free mutex and no history, and a book with no attribute set.\<close>

definition example_wrapper :: wrapper where
  "example_wrapper =
     \<lparr>cdb = ''/usr/bin/calibredb'', lib = ''/library'',
      cdb_with_lib = ''/usr/bin/calibredb --with-library /library''\<rparr>"

definition fresh_world :: world where
  "fresh_world = \<lparr>mutex_locked = False, trace = []\<rparr>"

definition empty_book :: Book where
  "empty_book =
     \<lparr>author_sort = [], authors = [], comments = [], cover = [], id_attr = 0,
      identifiers = [], isbn = [], languages = [], pubdate = [], publisher = [],
      rating = 0, series = [], series_index = 0, size_attr = 0, tags = [],
      timestamp = [], title = []\<rparr>"

text \<open>The JSON text of a list that holds one book, of id 1.\<close>

definition one_book_text :: string where
  "one_book_text = ''[{'' @ [dquote] @ ''id'' @ [dquote] @ '': 1}]''"

text \<open>
  An environment whose tool gives the same answer to every command. Its \<open>json.loads\<close>
  knows the empty list and the text above and rejects every other text; a command
  without quotes splits at its spaces; no file exists.
\<close>

definition example_env :: "proc_result \<Rightarrow> env" where
  "example_env answer =
     \<lparr>subprocess_run = (\<lambda>history cmd. answer),
      shlex_split = (\<lambda>cmd. split cmd '' ''),
      path_exists = (\<lambda>p. False),
      json_loads = (\<lambda>text.
        if text = ''[]'' then Inr (JArr [])
        else if text = one_book_text then Inr (JArr [JObj [(''id'', JNum 1)]])
        else Inl ''Expecting value: line 1 column 1 (char 0)''),
      mk_book = (\<lambda>kvs.
        if kvs = [(''id'', JNum 1)] then Some (empty_book\<lparr>id_attr := 1\<rparr>) else None)\<rparr>"

text \<open>A book with two identifiers and nothing else, and one with lists and a title.\<close>

definition two_identifiers_book :: Book where
  "two_identifiers_book = empty_book\<lparr>identifiers := [(''isbn'', ''123''), (''x'', ''y'')]\<rparr>"

definition lists_book :: Book where
  "lists_book =
     empty_book\<lparr>authors := [''A B'', '' C''], tags := [''x '', ''y''], title := ''T''\<rparr>"

section \<open>Properties\<close>

subsection \<open>Auxiliary facts\<close>

lemma split_from_nonempty: "split_from sep acc s \<noteq> []"
  by (induction sep acc s rule: split_from.induct) auto

lemma split_nonempty: "split s sep \<noteq> []"
  by (simp add: split_def split_from_nonempty)

lemma invocations_append: "invocations (xs @ ys) = invocations xs @ invocations ys"
  by (induction xs rule: invocations.induct) auto

lemma trace_emit: "trace (emit e w) = trace w @ [e]"
  by (simp add: emit_def)

lemma mutex_locked_emit: "mutex_locked (emit e w) = mutex_locked w"
  by (simp add: emit_def)

lemma classify_no_invocation:
  "invocations (trace (snd (classify_add_output cmd out stderr w))) = invocations (trace w)"
  by (simp add: classify_add_output_def Let_def trace_emit invocations_append split: option.split)

lemma fst_then_do_Raise: "then_do (Raise e, w) f = (Raise e, w)"
  by (simp add: then_do_def)

lemma then_do_Return: "then_do (Return x, w) f = f x w"
  by (simp add: then_do_def)

lemma validate_id_nonpositive:
  "ident \<le> 0 \<Longrightarrow> validate_id ident = Raise (ValueError (''Value '' @ str_int ident @ '' cannot be <= 0''))"
  by (simp add: validate_id_def)

lemma validate_id_positive: "0 < ident \<Longrightarrow> validate_id ident = Return ()"
  by (simp add: validate_id_def)

lemma run_locked:
  "mutex_locked w \<Longrightarrow>
     run env w cmd = (Blocked, emit (Log DEBUG (''Running '' @ [dquote] @ cmd @ [dquote])) w)"
  by (simp add: run_def Let_def mutex_locked_emit)

lemma run_fst:
  "\<not> mutex_locked w \<Longrightarrow>
     fst (run env w cmd) =
       (case subprocess_run env (invocations (trace w)) cmd of
          Completed out stderr \<Rightarrow> Return (out, stderr)
        | CalledProcessError returncode out stderr \<Rightarrow>
            Raise (if CONCURRENCY_ERR_REGEX stderr
                   then CalibreConcurrencyError (shlex_split env cmd) returncode
                   else CalibreRuntimeError (shlex_split env cmd) returncode out stderr)
        | ExecutableNotFound err \<Rightarrow>
            Raise (FileNotFoundError (''Executable could not be found.'' @ [newline, newline] @ err))
        | OtherFailure e \<Rightarrow> Raise e)"
  by (simp add: run_def Let_def emit_def invocations_append split: proc_result.split)

lemma run_mutex:
  "\<not> mutex_locked w \<Longrightarrow> \<not> mutex_locked (snd (run env w cmd))"
  by (simp add: run_def Let_def emit_def split: proc_result.split)

lemma run_trace:
  "\<not> mutex_locked w \<Longrightarrow>
     trace (snd (run env w cmd)) =
       trace w @ [Log DEBUG (''Running '' @ [dquote] @ cmd @ [dquote]), Acquire, Invoke cmd, Release]
       @ (case subprocess_run env (invocations (trace w)) cmd of
            Completed out stderr \<Rightarrow> if stderr \<noteq> [] then [Log WARNING stderr] else []
          | _ \<Rightarrow> [])"
  by (simp add: run_def Let_def emit_def invocations_append split: proc_result.split)

lemma run_not_blocked: "\<not> mutex_locked w \<Longrightarrow> fst (run env w cmd) \<noteq> Blocked"
  by (simp add: run_fst split: proc_result.split)

lemma run_invocations:
  "\<not> mutex_locked w \<Longrightarrow> invocations (trace (snd (run env w cmd))) = invocations (trace w) @ [cmd]"
  by (simp add: run_trace invocations_append split: proc_result.split)

lemma snd_then_do_keep:
  "snd (then_do m (\<lambda>(out, err) w. (Return (g out err), w))) = snd m"
  by (cases m; cases "fst m") (auto simp: then_do_def split: outcome.split)

lemma run_completed:
  assumes "\<not> mutex_locked w"
    and "subprocess_run env (invocations (trace w)) cmd = Completed out stderr"
  shows "\<exists>w'. run env w cmd = (Return (out, stderr), w')"
  using run_fst [OF assms(1), of env cmd] assms(2)
  by (cases "run env w cmd") simp

lemma get_book_returned:
  assumes "get_book self env w ident = (Return found, w')"
  shows "invocations (trace w') =
           invocations (trace w)
           @ [cdb_with_lib self @ '' list '' @ ''--for-machine --fields=all ''
              @ ''--search=id:'' @ str_int ident @ '' --limit=1'']
       \<and> \<not> mutex_locked w'"
proof -
  let ?cmd = "cdb_with_lib self @ '' list '' @ ''--for-machine --fields=all ''
              @ ''--search=id:'' @ str_int ident @ '' --limit=1''"
  have pos: "0 < ident"
    using assms by (cases "0 < ident") (auto simp: get_book_def validate_id_def then_do_def)
  have free: "\<not> mutex_locked w"
    using assms pos
    by (cases "mutex_locked w")
      (auto simp: get_book_def validate_id_positive then_do_def run_locked Let_def)
  obtain r w1 where r: "run env w ?cmd = (r, w1)"
    by (cases "run env w ?cmd") auto
  have w1: "invocations (trace w1) = invocations (trace w) @ [?cmd]" "\<not> mutex_locked w1"
    using run_invocations [OF free, of env ?cmd] run_mutex [OF free, of env ?cmd] r by simp_all
  have "invocations (trace w') = invocations (trace w1) \<and> mutex_locked w' = mutex_locked w1"
    using assms pos r
    by (auto simp: get_book_def validate_id_positive then_do_def Let_def trace_emit
        mutex_locked_emit invocations_append
        split: outcome.splits sum.splits json.splits if_splits option.splits)
  then show ?thesis
    using w1 by simp
qed

lemma get_book_example:
  "get_book example_wrapper (example_env (Completed one_book_text [])) fresh_world 1 =
     (Return (Some (empty_book\<lparr>id_attr := 1\<rparr>)),
      \<lparr>mutex_locked = False,
       trace = [Log DEBUG (''Running '' @ [dquote]
                  @ ''/usr/bin/calibredb --with-library /library list --for-machine --fields=all --search=id:1 --limit=1''
                  @ [dquote]),
                Acquire,
                Invoke ''/usr/bin/calibredb --with-library /library list --for-machine --fields=all --search=id:1 --limit=1'',
                Release]\<rparr>)"
  by (simp add: get_book_def validate_id_def then_do_def run_def Let_def emit_def str_int_def
      example_env_def example_wrapper_def fresh_world_def one_book_text_def)

lemma foldl_append_flags:
  "foldl (\<lambda>cmd (k, v). cmd @ f k v) cmd kvs = cmd @ concat (map (\<lambda>(k, v). f k v) kvs)"
  by (induction kvs arbitrary: cmd) auto

lemma add_flags_loop_prefix: "add_flags_loop fl b cmd = cmd @ add_flags_loop fl b []"
proof (induction fl arbitrary: cmd)
  case Nil
  show ?case by simp
next
  case (Cons p fl)
  obtain flag name where p: "p = (flag, name)" by (cases p)
  let ?X = "'' --'' @ name @ '' '' @
           quote (str_value (case getattr b flag of
                    PList lst \<Rightarrow>
                      if flag = ''authors'' then PStr (join_list lst '' & '')
                      else PStr (join_list lst '','')
                  | _ \<Rightarrow> getattr b flag))"
  have 1: "add_flags_loop fl b (cmd @ ?X) = cmd @ ?X @ add_flags_loop fl b []"
    using Cons.IH [of "cmd @ ?X"] by simp
  have 2: "add_flags_loop fl b ?X = ?X @ add_flags_loop fl b []"
    by (rule Cons.IH)
  have 3: "add_flags_loop fl b cmd = cmd @ add_flags_loop fl b []"
    by (rule Cons.IH)
  show ?case
    unfolding p using 1 2 3 by (simp add: Let_def foldl_append_flags)
qed

lemma add_flags_loop_step:
  "flag \<noteq> ''identifiers'' \<Longrightarrow>
   add_flags_loop ((flag, name) # rest) b [] =
     (if truthy (getattr b flag)
      then '' --'' @ name @ '' '' @
           quote (str_value (case getattr b flag of
                    PList lst \<Rightarrow>
                      if flag = ''authors'' then PStr (join_list lst '' & '')
                      else PStr (join_list lst '','')
                  | _ \<Rightarrow> getattr b flag))
      else [])
     @ add_flags_loop rest b []"
  using add_flags_loop_prefix [of rest b "'' --'' @ name @ '' '' @
           quote (str_value (case getattr b flag of
                    PList lst \<Rightarrow>
                      if flag = ''authors'' then PStr (join_list lst '' & '')
                      else PStr (join_list lst '','')
                  | _ \<Rightarrow> getattr b flag))"]
  by (simp add: Let_def)

lemma add_flags_loop_identifiers:
  "add_flags_loop ((''identifiers'', name) # rest) b [] =
     (if identifiers b \<noteq> []
      then concat (map (\<lambda>(k, v). '' --'' @ name @ '' '' @ quote (k @ '':'' @ v)) (identifiers b))
      else add_flags_loop rest b [])"
  by (simp add: Let_def getattr_def foldl_append_flags)

lemma add_flags_all:
  "handle_add_flags cmd (Some b) =
     cmd
     @ (if authors b \<noteq> [] then '' --authors '' @ quote (join_list (authors b) '' & '')
        else [])
     @ (if cover b \<noteq> [] then '' --cover '' @ quote (cover b) else [])
     @ (if identifiers b \<noteq> []
        then concat (map (\<lambda>(k, v). '' --identifier '' @ quote (k @ '':'' @ v)) (identifiers b))
        else (if isbn b \<noteq> [] then '' --isbn '' @ quote (isbn b) else [])
           @ (if languages b \<noteq> []
              then '' --languages '' @ quote (join_list (languages b) '','') else [])
           @ (if series b \<noteq> [] then '' --series '' @ quote (series b) else [])
           @ (if series_index b \<noteq> 0
              then '' --series-index '' @ quote (str_int (series_index b)) else [])
           @ (if tags b \<noteq> [] then '' --tags '' @ quote (join_list (tags b) '','') else [])
           @ (if title b \<noteq> [] then '' --title '' @ quote (title b) else []))"
proof -
  have "handle_add_flags cmd (Some b) = cmd @ add_flags_loop ADD_FLAGS b []"
    using add_flags_loop_prefix [of ADD_FLAGS b cmd] by (simp add: handle_add_flags_def)
  also have "add_flags_loop ADD_FLAGS b [] =
     []
     @ (if authors b \<noteq> [] then '' --authors '' @ quote (join_list (authors b) '' & '')
        else [])
     @ (if cover b \<noteq> [] then '' --cover '' @ quote (cover b) else [])
     @ (if identifiers b \<noteq> []
        then concat (map (\<lambda>(k, v). '' --identifier '' @ quote (k @ '':'' @ v)) (identifiers b))
        else (if isbn b \<noteq> [] then '' --isbn '' @ quote (isbn b) else [])
           @ (if languages b \<noteq> []
              then '' --languages '' @ quote (join_list (languages b) '','') else [])
           @ (if series b \<noteq> [] then '' --series '' @ quote (series b) else [])
           @ (if series_index b \<noteq> 0
              then '' --series-index '' @ quote (str_int (series_index b)) else [])
           @ (if tags b \<noteq> [] then '' --tags '' @ quote (join_list (tags b) '','') else [])
           @ (if title b \<noteq> [] then '' --title '' @ quote (title b) else []))"
    unfolding ADD_FLAGS_def
    by (simp add: add_flags_loop_step add_flags_loop_identifiers getattr_def
        del: add_flags_loop.simps(2) split del: if_split cong: if_cong)
  finally show ?thesis
    by simp
qed

text \<open>
  The update builder does join the entries of \<open>identifiers\<close> with a comma into one
  \<open>--field\<close> flag.
\<close>

lemma update_flags_join_identifiers:
  "handle_update_flags ''calibredb set_metadata 1'' (Some two_identifiers_book) =
     ''calibredb set_metadata 1 --field identifiers:isbn:123,x:y''"
  by (simp add: handle_update_flags_def UPDATE_FLAGS_def getattr_def two_identifiers_book_def
      empty_book_def join_list_def quote_def strip_def strip_chars_def whitespace_def)

lemma space_unsafe: "\<not> shlex_safe (CHR '' '')"
  by (simp add: shlex_safe_def)

lemma quote_cases:
  "quote v =
     (if CHR '' '' \<in> set (strip v) then [squote] @ replace_squote (strip v) @ [squote]
      else strip v)"
proof (cases "CHR '' '' \<in> set (strip v)")
  case True
  then have "strip v \<noteq> []" "\<not> list_all shlex_safe (strip v)"
    using space_unsafe by (auto simp: list_all_iff)
  with True show ?thesis
    by (simp add: quote_def shlex_quote_def)
next
  case False
  then show ?thesis
    by (simp add: quote_def)
qed

subsection \<open>Classifying the output of an add\<close>

text \<open>
  Claim C1. The claim: when stdout matches the added-books pattern, the classifier
  returns the parsed list of integer ids, and \<open>Added book ids: 7, 8\<close> yields \<open>[7, 8]\<close>.
  The code at this input: the group of \<open>BOOK_ADDED_REGEX\<close> admits digits and commas
  but no space, so it ends after \<open>7,\<close>; splitting that text at comma-space finds no
  separator; the call returns the one-element list holding the text \<open>7,\<close>.
\<close>

theorem added_ids_7_8:
  "classify_add_output cmd ''Added book ids: 7, 8'' [] w = (Return [''7,''], w)"
  by (simp add: classify_add_output_def BOOK_IGNORED_REGEX_def BOOK_MERGED_REGEX_def
      BOOK_ADDED_REGEX_def search_literal_class_def split_def)

text \<open>
  Claim C3. The patterns are tried in the order conflict, merged, added, and the first
  match decides. A stderr that matches the already-exists pattern gives the
  already-exists error with the stripped stdout, whatever stdout holds; otherwise a
  stdout that matches the merged pattern gives the merged ids; otherwise a stdout that
  matches the added pattern gives the added ids; otherwise the generic error for
  output that could not be parsed is raised.
\<close>

theorem classify_priority:
  "(BOOK_IGNORED_REGEX stderr \<longrightarrow>
      classify_add_output cmd out stderr w =
        (Raise (ExistingItemError (''Book '' @ strip_chars [newline, CHR '' ''] out
                  @ '' already exists. Include automerge=overwrite to overwrite.'')),
         emit (Log INFO (''Books '' @ strip_chars [newline, CHR '' ''] out
                  @ '' already exist. Ignoring...'')) w))
   \<and> (\<not> BOOK_IGNORED_REGEX stderr \<and> BOOK_MERGED_REGEX out = Some ids \<longrightarrow>
      classify_add_output cmd out stderr w = (Return (split ids '', ''), w))
   \<and> (\<not> BOOK_IGNORED_REGEX stderr \<and> BOOK_MERGED_REGEX out = None
        \<and> BOOK_ADDED_REGEX out = Some ids \<longrightarrow>
      classify_add_output cmd out stderr w = (Return (split ids '', ''), w))
   \<and> (\<not> BOOK_IGNORED_REGEX stderr \<and> BOOK_MERGED_REGEX out = None
        \<and> BOOK_ADDED_REGEX out = None \<longrightarrow>
      fst (classify_add_output cmd out stderr w) =
        Raise (Exception ''Could not parse calibredb add output, something went wrong...''))"
  by (simp add: classify_add_output_def Let_def split_nonempty)

theorem classify_priority_witness:
  "BOOK_IGNORED_REGEX ''The following books were not added as they already exist in the database''
   \<and> BOOK_ADDED_REGEX ''Added book ids: 7'' = Some ''7''
   \<and> classify_add_output ''calibredb add'' ''Added book ids: 7''
        ''The following books were not added as they already exist in the database''
        \<lparr>mutex_locked = False, trace = []\<rparr> =
      (Raise (ExistingItemError
         ''Book Added book ids: 7 already exists. Include automerge=overwrite to overwrite.''),
       \<lparr>mutex_locked = False,
        trace = [Log INFO ''Books Added book ids: 7 already exist. Ignoring...'']\<rparr>)
   \<and> classify_add_output ''calibredb add'' ''Merged book ids: 3, 4'' [] \<lparr>mutex_locked = False, trace = []\<rparr>
       = (Return [''3'', ''4''], \<lparr>mutex_locked = False, trace = []\<rparr>)
   \<and> classify_add_output ''calibredb add'' ''Added book ids: 7'' [] \<lparr>mutex_locked = False, trace = []\<rparr>
       = (Return [''7''], \<lparr>mutex_locked = False, trace = []\<rparr>)
   \<and> fst (classify_add_output ''calibredb add'' ''no output'' [] \<lparr>mutex_locked = False, trace = []\<rparr>)
       = Raise (Exception ''Could not parse calibredb add output, something went wrong...'')"
proof -
  let ?w = "\<lparr>mutex_locked = False, trace = []\<rparr>"
  let ?err = "''The following books were not added as they already exist in the database''"
  have ign: "BOOK_IGNORED_REGEX ?err"
    by (simp add: BOOK_IGNORED_REGEX_def)
  have nign: "\<not> BOOK_IGNORED_REGEX []"
    by (simp add: BOOK_IGNORED_REGEX_def)
  have add7: "BOOK_ADDED_REGEX ''Added book ids: 7'' = Some ''7''"
    by (simp add: BOOK_ADDED_REGEX_def search_literal_class_def)
  have nmerge7: "BOOK_MERGED_REGEX ''Added book ids: 7'' = None"
    by (simp add: BOOK_MERGED_REGEX_def search_literal_class_def)
  have merge: "BOOK_MERGED_REGEX ''Merged book ids: 3, 4'' = Some ''3, 4''"
    by (simp add: BOOK_MERGED_REGEX_def search_literal_class_def)
  have none: "BOOK_MERGED_REGEX ''no output'' = None" "BOOK_ADDED_REGEX ''no output'' = None"
    by (simp_all add: BOOK_MERGED_REGEX_def BOOK_ADDED_REGEX_def search_literal_class_def)
  have sp: "split ''3, 4'' '', '' = [''3'', ''4'']" "split ''7'' '', '' = [''7'']"
    by (simp_all add: split_def)
  have st: "strip_chars [newline, CHR '' ''] ''Added book ids: 7'' = ''Added book ids: 7''"
    by (simp add: strip_chars_def)
  note c1 = classify_priority [where stderr = ?err and cmd = "''calibredb add''"
      and out = "''Added book ids: 7''" and w = ?w]
  note c2 = classify_priority [where stderr = "[]" and cmd = "''calibredb add''"
      and out = "''Merged book ids: 3, 4''" and ids = "''3, 4''" and w = ?w]
  note c3 = classify_priority [where stderr = "[]" and cmd = "''calibredb add''"
      and out = "''Added book ids: 7''" and ids = "''7''" and w = ?w]
  note c4 = classify_priority [where stderr = "[]" and cmd = "''calibredb add''"
      and out = "''no output''" and w = ?w]
  show ?thesis
    using c1 c2 c3 c4 ign nign add7 nmerge7 merge none
    by (simp add: sp st emit_def)
qed

subsection \<open>The command runner and the mutex\<close>

text \<open>
  Claim C4. A call of \<open>_run\<close> that finds the mutex free takes it before the tool is
  invoked and releases it after, on every exit path: success, a non-zero exit (raised
  as a concurrency or a runtime error), an executable that is not found, and any other
  exception. After the call the mutex is free, and a following call does not block.
\<close>

theorem run_releases_mutex:
  assumes "\<not> mutex_locked w"
  shows "fst (run env w cmd) =
           (case subprocess_run env (invocations (trace w)) cmd of
              Completed out stderr \<Rightarrow> Return (out, stderr)
            | CalledProcessError returncode out stderr \<Rightarrow>
                Raise (if CONCURRENCY_ERR_REGEX stderr
                       then CalibreConcurrencyError (shlex_split env cmd) returncode
                       else CalibreRuntimeError (shlex_split env cmd) returncode out stderr)
            | ExecutableNotFound err \<Rightarrow>
                Raise (FileNotFoundError
                  (''Executable could not be found.'' @ [newline, newline] @ err))
            | OtherFailure e \<Rightarrow> Raise e)
       \<and> trace (snd (run env w cmd)) =
           trace w
           @ [Log DEBUG (''Running '' @ [dquote] @ cmd @ [dquote]), Acquire, Invoke cmd, Release]
           @ (case subprocess_run env (invocations (trace w)) cmd of
                Completed out stderr \<Rightarrow> if stderr \<noteq> [] then [Log WARNING stderr] else []
              | _ \<Rightarrow> [])
       \<and> \<not> mutex_locked (snd (run env w cmd))
       \<and> fst (run env (snd (run env w cmd)) cmd') \<noteq> Blocked"
  using assms run_fst [of w env cmd] run_trace [of w env cmd] run_mutex [of w env cmd]
    run_not_blocked [of "snd (run env w cmd)" env cmd']
  by simp

theorem run_releases_mutex_witness:
  "\<not> mutex_locked fresh_world
   \<and> fst (run (example_env (ExecutableNotFound ''[Errno 2] No such file or directory''))
          fresh_world ''/usr/bin/calibredb --version'') =
       Raise (FileNotFoundError (''Executable could not be found.'' @ [newline, newline]
                @ ''[Errno 2] No such file or directory''))
   \<and> trace (snd (run (example_env (ExecutableNotFound ''[Errno 2] No such file or directory''))
          fresh_world ''/usr/bin/calibredb --version'')) =
       [Log DEBUG (''Running '' @ [dquote] @ ''/usr/bin/calibredb --version'' @ [dquote]),
        Acquire, Invoke ''/usr/bin/calibredb --version'', Release]
   \<and> \<not> mutex_locked
         (snd (run (example_env (ExecutableNotFound ''[Errno 2] No such file or directory''))
            fresh_world ''/usr/bin/calibredb --version''))
   \<and> fst (run (example_env (ExecutableNotFound ''[Errno 2] No such file or directory''))
          (snd (run (example_env (ExecutableNotFound ''[Errno 2] No such file or directory''))
             fresh_world ''/usr/bin/calibredb --version''))
          ''/usr/bin/calibredb --version'') \<noteq> Blocked"
proof -
  have free: "\<not> mutex_locked fresh_world"
    by (simp add: fresh_world_def)
  show ?thesis
    using free run_releases_mutex [OF free,
        of "example_env (ExecutableNotFound ''[Errno 2] No such file or directory'')"
           "''/usr/bin/calibredb --version''" "''/usr/bin/calibredb --version''"]
    by (simp add: example_env_def fresh_world_def)
qed

subsection \<open>Validation of the id\<close>

text \<open>
  Claim C5. For an id that is zero or negative, each of \<open>get_book\<close>, \<open>add_format\<close>,
  \<open>remove_format\<close>, \<open>show_metadata\<close> and \<open>set_metadata\<close> raises ValueError and
  leaves the world as it was: nothing is logged, locked or invoked.
\<close>

theorem nonpositive_id_rejected:
  assumes "ident \<le> 0"
  shows "get_book self env w ident =
           (Raise (ValueError (''Value '' @ str_int ident @ '' cannot be <= 0'')), w)
       \<and> add_format self env w ident replace data_file =
           (Raise (ValueError (''Value '' @ str_int ident @ '' cannot be <= 0'')), w)
       \<and> remove_format self env w ident format =
           (Raise (ValueError (''Value '' @ str_int ident @ '' cannot be <= 0'')), w)
       \<and> show_metadata self env w ident =
           (Raise (ValueError (''Value '' @ str_int ident @ '' cannot be <= 0'')), w)
       \<and> set_metadata self env w ident book metadata_path =
           (Raise (ValueError (''Value '' @ str_int ident @ '' cannot be <= 0'')), w)"
  using assms
  by (simp add: get_book_def add_format_def remove_format_def show_metadata_def
      set_metadata_def validate_id_nonpositive fst_then_do_Raise)

theorem nonpositive_id_rejected_witness:
  "(- 3 :: int) \<le> 0
   \<and> get_book example_wrapper (example_env (Completed one_book_text [])) fresh_world (- 3) =
       (Raise (ValueError ''Value -3 cannot be <= 0''), fresh_world)
   \<and> set_metadata example_wrapper (example_env (Completed one_book_text [])) fresh_world (- 3)
         (Some empty_book) None =
       (Raise (ValueError ''Value -3 cannot be <= 0''), fresh_world)
   \<and> invocations (trace fresh_world) = []"
proof -
  have le: "(- 3 :: int) \<le> 0" by simp
  have s: "str_int (- 3) = ''-3''" by (simp add: str_int_def)
  show ?thesis
    using nonpositive_id_rejected [OF le, of example_wrapper
        "example_env (Completed one_book_text [])" fresh_world False False "[]" "Some empty_book" None]
    by (simp add: s fresh_world_def)
qed

subsection \<open>The automerge policy\<close>

text \<open>
  Claim C7. An automerge value outside \<open>overwrite\<close>, \<open>new_record\<close>, \<open>ignore\<close> never
  makes the add raise on its own account: the add logs a warning and then behaves as
  it does for \<open>ignore\<close>. With a free mutex the command that is invoked carries
  \<open>--automerge=ignore\<close> for such a value and \<open>--automerge=\<close> followed by the value
  itself for a value of the set.
\<close>

theorem automerge_normalized:
  "(automerge \<notin> set AUTOMERGE_VALID_VALUES \<longrightarrow>
      run_add env w cmd book automerge =
        run_add env
          (emit (Log WARNING
             (''automerge value '' @ [dquote] @ automerge @ [dquote] @ '' not supported. ''
              @ ''Using '' @ [dquote] @ ''--automerge ignore'' @ [dquote] @ ''.'')) w)
          cmd book ''ignore'')
   \<and> (\<not> mutex_locked w \<longrightarrow>
      invocations (trace (snd (run_add env w cmd book automerge))) =
        invocations (trace w)
        @ [handle_add_flags
             (cmd @ '' --automerge=''
                @ (if automerge \<in> set AUTOMERGE_VALID_VALUES then automerge else ''ignore''))
             book])"
proof (intro conjI impI)
  assume "automerge \<notin> set AUTOMERGE_VALID_VALUES"
  then show "run_add env w cmd book automerge =
        run_add env
          (emit (Log WARNING
             (''automerge value '' @ [dquote] @ automerge @ [dquote] @ '' not supported. ''
              @ ''Using '' @ [dquote] @ ''--automerge ignore'' @ [dquote] @ ''.'')) w)
          cmd book ''ignore''"
    by (simp add: run_add_def AUTOMERGE_VALID_VALUES_def)
next
  assume free: "\<not> mutex_locked w"
  have inv: "invocations (trace (snd (then_do (run env w' c)
               (\<lambda>(out, stderr) w. classify_add_output c out stderr w)))) =
             invocations (trace w') @ [c]" if "\<not> mutex_locked w'" for w' c
  proof (cases "run env w' c")
    case (Pair r w'')
    have "invocations (trace w'') = invocations (trace w') @ [c]"
      using run_invocations [OF that, of env c] Pair by simp
    then show ?thesis
      using Pair by (cases r) (auto simp: then_do_def classify_no_invocation)
  qed
  show "invocations (trace (snd (run_add env w cmd book automerge))) =
        invocations (trace w)
        @ [handle_add_flags
             (cmd @ '' --automerge=''
                @ (if automerge \<in> set AUTOMERGE_VALID_VALUES then automerge else ''ignore''))
             book]"
    using free
    by (simp add: run_add_def Let_def inv mutex_locked_emit trace_emit invocations_append)
qed

theorem automerge_normalized_witness:
  "''bogus'' \<notin> set AUTOMERGE_VALID_VALUES \<and> \<not> mutex_locked fresh_world
   \<and> run_add (example_env (Completed ''Added book ids: 7'' [])) fresh_world
        ''calibredb add --empty'' None ''bogus'' =
      run_add (example_env (Completed ''Added book ids: 7'' []))
        (emit (Log WARNING
           (''automerge value '' @ [dquote] @ ''bogus'' @ [dquote] @ '' not supported. ''
            @ ''Using '' @ [dquote] @ ''--automerge ignore'' @ [dquote] @ ''.'')) fresh_world)
        ''calibredb add --empty'' None ''ignore''
   \<and> invocations (trace (snd (run_add (example_env (Completed ''Added book ids: 7'' []))
        fresh_world ''calibredb add --empty'' None ''bogus''))) =
      [''calibredb add --empty --automerge=ignore'']
   \<and> invocations (trace (snd (run_add (example_env (Completed ''Added book ids: 7'' []))
        fresh_world ''calibredb add --empty'' None ''overwrite''))) =
      [''calibredb add --empty --automerge=overwrite'']"
proof -
  have bogus: "''bogus'' \<notin> set AUTOMERGE_VALID_VALUES"
    by (simp add: AUTOMERGE_VALID_VALUES_def)
  have valid: "''overwrite'' \<in> set AUTOMERGE_VALID_VALUES"
    by (simp add: AUTOMERGE_VALID_VALUES_def)
  have free: "\<not> mutex_locked fresh_world"
    by (simp add: fresh_world_def)
  note a = automerge_normalized [where automerge = "''bogus''" and w = fresh_world
      and env = "example_env (Completed ''Added book ids: 7'' [])"
      and cmd = "''calibredb add --empty''" and book = None]
  note b = automerge_normalized [where automerge = "''overwrite''" and w = fresh_world
      and env = "example_env (Completed ''Added book ids: 7'' [])"
      and cmd = "''calibredb add --empty''" and book = None]
  note a1 = a [THEN conjunct1, rule_format, OF bogus]
  have a2: "invocations (trace (snd (run_add (example_env (Completed ''Added book ids: 7'' []))
        fresh_world ''calibredb add --empty'' None ''bogus''))) =
      [''calibredb add --empty --automerge=ignore'']"
    using a [THEN conjunct2, rule_format, OF free] bogus
    by (simp add: handle_add_flags_def fresh_world_def)
  have b2: "invocations (trace (snd (run_add (example_env (Completed ''Added book ids: 7'' []))
        fresh_world ''calibredb add --empty'' None ''overwrite''))) =
      [''calibredb add --empty --automerge=overwrite'']"
    using b [THEN conjunct2, rule_format, OF free] valid
    by (simp add: handle_add_flags_def fresh_world_def)
  show ?thesis
    by (intro conjI bogus free a1 a2 b2)
qed

subsection \<open>Adding a format\<close>

text \<open>
  Claim C10. For a positive id and a free mutex, \<open>add_format\<close> with \<open>replace=True\<close>
  invokes a command with the flag \<open>--dont-replace\<close> right after the id, and with
  \<open>replace=False\<close> the same command without that flag.
\<close>

theorem add_format_replace_flag:
  assumes "0 < ident" and "\<not> mutex_locked w"
  shows "invocations (trace (snd (add_format self env w ident True data_file))) =
           invocations (trace w)
           @ [cdb_with_lib self @ '' add_format '' @ str_int ident @ '' --dont-replace''
              @ (if data_file then '' --as-extra-data-file'' else [])]
       \<and> invocations (trace (snd (add_format self env w ident False data_file))) =
           invocations (trace w)
           @ [cdb_with_lib self @ '' add_format '' @ str_int ident
              @ (if data_file then '' --as-extra-data-file'' else [])]"
  using assms
  by (simp add: add_format_def validate_id_positive then_do_Return Let_def
      snd_then_do_keep run_invocations)

theorem add_format_replace_flag_witness:
  "(0::int) < 5 \<and> \<not> mutex_locked fresh_world
   \<and> invocations (trace (snd (add_format example_wrapper (example_env (Completed [] []))
        fresh_world 5 True False))) =
       [''/usr/bin/calibredb --with-library /library add_format 5 --dont-replace'']
   \<and> invocations (trace (snd (add_format example_wrapper (example_env (Completed [] []))
        fresh_world 5 False False))) =
       [''/usr/bin/calibredb --with-library /library add_format 5'']"
proof -
  have pos: "(0::int) < 5" by simp
  have free: "\<not> mutex_locked fresh_world"
    by (simp add: fresh_world_def)
  have s: "str_int 5 = ''5''" by (simp add: str_int_def)
  show ?thesis
    using pos free add_format_replace_flag [OF pos free,
        of example_wrapper "example_env (Completed [] [])" False]
    by (simp add: s example_wrapper_def fresh_world_def)
qed

subsection \<open>Looking up a book\<close>

text \<open>
  Claim C9. For a positive id and a free mutex, when the tool completes the list
  command and its stdout does not parse as JSON, or parses to a list whose length is
  not 1, \<open>get_book\<close> returns \<open>None\<close> and raises nothing.
\<close>

theorem get_book_malformed_output:
  assumes "0 < ident" and "\<not> mutex_locked w"
    and "subprocess_run env (invocations (trace w))
           (cdb_with_lib self @ '' list '' @ ''--for-machine --fields=all ''
            @ ''--search=id:'' @ str_int ident @ '' --limit=1'') = Completed out stderr"
  shows "(json_loads env out = Inl exc \<longrightarrow> fst (get_book self env w ident) = Return None)
       \<and> (json_loads env out = Inr (JArr xs) \<and> length xs \<noteq> 1 \<longrightarrow>
            fst (get_book self env w ident) = Return None)"
proof -
  obtain w' where "run env w (cdb_with_lib self @ '' list '' @ ''--for-machine --fields=all ''
            @ ''--search=id:'' @ str_int ident @ '' --limit=1'') = (Return (out, stderr), w')"
    using run_completed [OF assms(2,3)] by blast
  then show ?thesis
    using assms(1)
    by (simp add: get_book_def validate_id_positive then_do_Return Let_def)
qed

theorem get_book_malformed_output_witness:
  "(0::int) < 1 \<and> \<not> mutex_locked fresh_world
   \<and> json_loads (example_env (Completed ''calibredb: error'' [])) ''calibredb: error'' =
       Inl ''Expecting value: line 1 column 1 (char 0)''
   \<and> fst (get_book example_wrapper (example_env (Completed ''calibredb: error'' []))
        fresh_world 1) = Return None
   \<and> json_loads (example_env (Completed ''[]'' [])) ''[]'' = Inr (JArr [])
   \<and> fst (get_book example_wrapper (example_env (Completed ''[]'' [])) fresh_world 1) =
       Return None"
proof -
  have pos: "(0::int) < 1" by simp
  have free: "\<not> mutex_locked fresh_world"
    by (simp add: fresh_world_def)
  have bad: "json_loads (example_env (Completed ''calibredb: error'' [])) ''calibredb: error'' =
       Inl ''Expecting value: line 1 column 1 (char 0)''"
    by (simp add: example_env_def one_book_text_def)
  have empty: "json_loads (example_env (Completed ''[]'' [])) ''[]'' = Inr (JArr [])"
    by (simp add: example_env_def)
  have t1: "subprocess_run (example_env (Completed ''calibredb: error'' []))
      (invocations (trace fresh_world))
      (cdb_with_lib example_wrapper @ '' list '' @ ''--for-machine --fields=all ''
            @ ''--search=id:'' @ str_int 1 @ '' --limit=1'') = Completed ''calibredb: error'' []"
    by (simp add: example_env_def)
  have t2: "subprocess_run (example_env (Completed ''[]'' []))
      (invocations (trace fresh_world))
      (cdb_with_lib example_wrapper @ '' list '' @ ''--for-machine --fields=all ''
            @ ''--search=id:'' @ str_int 1 @ '' --limit=1'') = Completed ''[]'' []"
    by (simp add: example_env_def)
  note a = get_book_malformed_output [OF pos free t1, THEN conjunct1, rule_format, OF bad]
  have len: "length ([] :: json list) \<noteq> 1" by simp
  note b = get_book_malformed_output [OF pos free t2, THEN conjunct2, rule_format,
      OF conjI [OF empty len]]
  show ?thesis
    by (intro conjI pos free bad empty a b)
qed

subsection \<open>Setting metadata\<close>

text \<open>
  Claim C6, as stated: for a positive id, \<open>set_metadata\<close> with neither a book nor a
  metadata path raises the rejected-input error before any external invocation. It
  does not: the lookup of the book comes first. Here the tool reports the book of id 1,
  and the error is raised after the list command has been invoked.
\<close>

theorem set_metadata_invokes_before_rejecting:
  "fst (set_metadata example_wrapper (example_env (Completed one_book_text [])) fresh_world 1
          None None) = Raise (ValueError ''No metadata given for update'')
   \<and> invocations (trace (snd (set_metadata example_wrapper
          (example_env (Completed one_book_text [])) fresh_world 1 None None))) =
       [''/usr/bin/calibredb --with-library /library list --for-machine --fields=all --search=id:1 --limit=1'']"
  by (simp add: set_metadata_def get_book_example validate_id_def then_do_def)

text \<open>
  Claim C6, amended. For a positive id, \<open>set_metadata\<close> first looks the book up, which
  invokes the list command once. When the lookup returns no book, \<open>set_metadata\<close>
  returns \<open>-1\<close> and raises nothing, whatever book or path is supplied. When the lookup
  returns a book and neither a book nor a metadata path is supplied, it raises
  ValueError, and nothing is invoked after the lookup.
\<close>

theorem set_metadata_lookup_first:
  assumes "0 < ident" and "get_book self env w ident = (Return found, w')"
  shows "(found = None \<longrightarrow>
            set_metadata self env w ident book metadata_path = (Return (- 1), w'))
       \<and> (found \<noteq> None \<longrightarrow>
            set_metadata self env w ident None None =
              (Raise (ValueError ''No metadata given for update''), w'))
       \<and> invocations (trace w') =
           invocations (trace w)
           @ [cdb_with_lib self @ '' list '' @ ''--for-machine --fields=all ''
              @ ''--search=id:'' @ str_int ident @ '' --limit=1'']"
  using assms get_book_returned [OF assms(2)]
  by (simp add: set_metadata_def validate_id_positive then_do_Return fst_then_do_Raise Let_def)

theorem set_metadata_lookup_first_witness:
  "(0::int) < 1
   \<and> get_book example_wrapper (example_env (Completed one_book_text [])) fresh_world 1 =
       (Return (Some (empty_book\<lparr>id_attr := 1\<rparr>)),
        snd (get_book example_wrapper (example_env (Completed one_book_text [])) fresh_world 1))
   \<and> set_metadata example_wrapper (example_env (Completed one_book_text [])) fresh_world 1
        None None =
       (Raise (ValueError ''No metadata given for update''),
        snd (get_book example_wrapper (example_env (Completed one_book_text [])) fresh_world 1))
   \<and> get_book example_wrapper (example_env (Completed ''[]'' [])) fresh_world 1 =
       (Return None, snd (get_book example_wrapper (example_env (Completed ''[]'' [])) fresh_world 1))
   \<and> set_metadata example_wrapper (example_env (Completed ''[]'' [])) fresh_world 1
        (Some empty_book) None =
       (Return (- 1), snd (get_book example_wrapper (example_env (Completed ''[]'' [])) fresh_world 1))"
proof -
  have pos: "(0::int) < 1" by simp
  have found: "get_book example_wrapper (example_env (Completed one_book_text [])) fresh_world 1 =
       (Return (Some (empty_book\<lparr>id_attr := 1\<rparr>)),
        snd (get_book example_wrapper (example_env (Completed one_book_text [])) fresh_world 1))"
    by (simp add: get_book_example)
  have missing: "get_book example_wrapper (example_env (Completed ''[]'' [])) fresh_world 1 =
       (Return None, snd (get_book example_wrapper (example_env (Completed ''[]'' [])) fresh_world 1))"
    by (simp add: get_book_def validate_id_def then_do_def run_def Let_def emit_def str_int_def
      example_env_def example_wrapper_def fresh_world_def)
  have some: "Some (empty_book\<lparr>id_attr := 1\<rparr>) \<noteq> None" by simp
  note a = set_metadata_lookup_first [OF pos found, THEN conjunct2, THEN conjunct1,
      rule_format, OF some]
  note b = set_metadata_lookup_first [OF pos missing, THEN conjunct1, rule_format, OF refl,
      of "Some empty_book" None]
  show ?thesis
    by (intro conjI pos found missing a b)
qed

subsection \<open>The flags of an add\<close>

text \<open>
  Claim C2. The claim: the entries of \<open>identifiers\<close> are rendered as \<open>key:value\<close>,
  joined with a comma and emitted as a single flag of the add command, so that the
  mapping of \<open>isbn\<close> to \<open>123\<close> and \<open>x\<close> to \<open>y\<close> renders as \<open>isbn:123,x:y\<close>. The
  docstring of \<open>_handle_add_flags\<close> says the same, and \<open>_handle_update_flags\<close> does join
  the entries. The code of \<open>_handle_add_flags\<close> at this input: it appends one
  \<open>--identifier\<close> flag for every entry, and the command does not hold the joined value.
\<close>

theorem identifiers_one_flag_each_example:
  "handle_add_flags ''calibredb add --empty --automerge=ignore'' (Some two_identifiers_book) =
     ''calibredb add --empty --automerge=ignore --identifier isbn:123 --identifier x:y''
   \<and> handle_add_flags ''calibredb add --empty --automerge=ignore'' (Some two_identifiers_book) \<noteq>
     ''calibredb add --empty --automerge=ignore --identifier isbn:123,x:y''"
  by (simp add: add_flags_all two_identifiers_book_def empty_book_def quote_def strip_def
      strip_chars_def whitespace_def)

text \<open>
  The same holds for every book whose \<open>identifiers\<close> mapping is not empty: every entry
  is emitted as a flag \<open>--identifier\<close> of its own, in the order of the mapping, and the
  command ends with these flags, after the flags of \<open>authors\<close> and \<open>cover\<close>.
\<close>

theorem identifiers_flags_last:
  assumes "identifiers b \<noteq> []"
  shows "handle_add_flags cmd (Some b) =
     cmd
     @ (if authors b \<noteq> [] then '' --authors '' @ quote (join_list (authors b) '' & '')
        else [])
     @ (if cover b \<noteq> [] then '' --cover '' @ quote (cover b) else [])
     @ concat (map (\<lambda>(k, v). '' --identifier '' @ quote (k @ '':'' @ v)) (identifiers b))"
  using assms by (simp only: add_flags_all if_True simp_thms)

theorem identifiers_flags_last_witness:
  "identifiers (two_identifiers_book\<lparr>authors := [''A''], title := ''T''\<rparr>) \<noteq> []
   \<and> handle_add_flags ''calibredb add f.epub''
        (Some (two_identifiers_book\<lparr>authors := [''A''], title := ''T''\<rparr>)) =
      ''calibredb add f.epub --authors A --identifier isbn:123 --identifier x:y''"
proof -
  have ne: "identifiers (two_identifiers_book\<lparr>authors := [''A''], title := ''T''\<rparr>) \<noteq> []"
    by (simp add: two_identifiers_book_def)
  show ?thesis
    using ne identifiers_flags_last [OF ne, of "''calibredb add f.epub''"]
    by (simp add: two_identifiers_book_def empty_book_def quote_def join_list_def strip_def
        strip_chars_def whitespace_def)
qed

text \<open>
  Claim C8. For every book, the add builder joins the stripped elements of \<open>authors\<close>
  with \<open>" & "\<close> and the stripped elements of every other list (\<open>languages\<close>,
  \<open>tags\<close>) with a comma. Every flag value goes through \<open>quote\<close>, which strips the value
  and then wraps it in single quotes, the way \<open>shlex.quote\<close> does, exactly when the
  stripped value contains a space; otherwise the stripped value is emitted as it is.
\<close>

theorem list_fields_joined_and_quoted:
  "handle_add_flags cmd (Some b) =
     cmd
     @ (if authors b \<noteq> []
        then '' --authors '' @ quote (str_join '' & '' (map strip (authors b))) else [])
     @ (if cover b \<noteq> [] then '' --cover '' @ quote (cover b) else [])
     @ (if identifiers b \<noteq> []
        then concat (map (\<lambda>(k, v). '' --identifier '' @ quote (k @ '':'' @ v)) (identifiers b))
        else (if isbn b \<noteq> [] then '' --isbn '' @ quote (isbn b) else [])
           @ (if languages b \<noteq> []
              then '' --languages '' @ quote (str_join '','' (map strip (languages b))) else [])
           @ (if series b \<noteq> [] then '' --series '' @ quote (series b) else [])
           @ (if series_index b \<noteq> 0
              then '' --series-index '' @ quote (str_int (series_index b)) else [])
           @ (if tags b \<noteq> [] then '' --tags '' @ quote (str_join '','' (map strip (tags b))) else [])
           @ (if title b \<noteq> [] then '' --title '' @ quote (title b) else []))
   \<and> quote v =
       (if CHR '' '' \<in> set (strip v) then [squote] @ replace_squote (strip v) @ [squote]
        else strip v)"
  using add_flags_all [of cmd b] quote_cases [of v]
  by (simp only: join_list_def)

theorem list_fields_joined_and_quoted_witness:
  "handle_add_flags ''calibredb add f.epub'' (Some lists_book) =
     ''calibredb add f.epub --authors '' @ [squote] @ ''A B & C'' @ [squote]
     @ '' --tags x,y --title T''
   \<and> quote ''A B & C'' = [squote] @ ''A B & C'' @ [squote]
   \<and> quote ''x,y'' = ''x,y''"
proof -
  note a = list_fields_joined_and_quoted [of "''calibredb add f.epub''" lists_book "''A B & C''",
      THEN conjunct1]
  note q1 = list_fields_joined_and_quoted [of "''calibredb add f.epub''" lists_book "''A B & C''",
      THEN conjunct2]
  note q2 = list_fields_joined_and_quoted [of "''calibredb add f.epub''" lists_book "''x,y''",
      THEN conjunct2]
  have s1: "strip ''A B & C'' = ''A B & C''" "strip ''x,y'' = ''x,y''" "strip ''A B'' = ''A B''"
    "strip '' C'' = ''C''" "strip ''x '' = ''x''" "strip ''y'' = ''y''" "strip ''T'' = ''T''"
    by (simp_all add: strip_def strip_chars_def whitespace_def)
  have q1': "quote ''A B & C'' = [squote] @ ''A B & C'' @ [squote]"
    using q1 by (simp add: s1)
  have q2': "quote ''x,y'' = ''x,y''"
    using q2 by (simp add: s1)
  have q3: "quote ''T'' = ''T''"
    by (simp add: quote_def s1)
  have a': "handle_add_flags ''calibredb add f.epub'' (Some lists_book) =
     ''calibredb add f.epub --authors '' @ [squote] @ ''A B & C'' @ [squote]
     @ '' --tags x,y --title T''"
    using a by (simp add: lists_book_def empty_book_def s1 q1' q2' q3)
  show ?thesis
    by (intro conjI a' q1' q2')
qed

end
